theory Spec2Isabelle
  imports Complex_Main "HOL-Library.Word"
begin

section \<open>Arbitrary-precision numbers\<close>

text \<open>
  Modelled from the spec: the numeric fields of an order are arbitrary-precision decimal
  numbers (section 3); the source holds them in \<open>BigNumber\<close> objects of the
  bignumber.js package, which is a dependency and not a file of the repository. A finite
  value is kept as a rational. The package never raises on a division by zero: it
  answers with an infinity or with NaN, and these values flow through every later
  operation, so they are values of the model too. The package also knows a negative zero;
  it is identified with zero here (a difference of equal numbers is the positive zero in
  the package, which is the only zero a divisor of the source can be).
\<close>

datatype BigNumber = Finite rat | PosInfinity | NegInfinity | NaN

fun BigNumber_negated :: "BigNumber \<Rightarrow> BigNumber" where
  "BigNumber_negated (Finite a) = Finite (- a)"
| "BigNumber_negated PosInfinity = NegInfinity"
| "BigNumber_negated NegInfinity = PosInfinity"
| "BigNumber_negated NaN = NaN"

fun BigNumber_plus :: "BigNumber \<Rightarrow> BigNumber \<Rightarrow> BigNumber" where
  "BigNumber_plus NaN y = NaN"
| "BigNumber_plus x NaN = NaN"
| "BigNumber_plus (Finite a) (Finite b) = Finite (a + b)"
| "BigNumber_plus PosInfinity NegInfinity = NaN"
| "BigNumber_plus NegInfinity PosInfinity = NaN"
| "BigNumber_plus PosInfinity y = PosInfinity"
| "BigNumber_plus NegInfinity y = NegInfinity"
| "BigNumber_plus (Finite a) y = y"

definition BigNumber_minus :: "BigNumber \<Rightarrow> BigNumber \<Rightarrow> BigNumber" where
  "BigNumber_minus x y = BigNumber_plus x (BigNumber_negated y)"

text \<open>The sign of a number as the package multiplies signs: zero counts as positive.\<close>

fun BigNumber_isNegative :: "BigNumber \<Rightarrow> bool" where
  "BigNumber_isNegative (Finite a) = (a < 0)"
| "BigNumber_isNegative PosInfinity = False"
| "BigNumber_isNegative NegInfinity = True"
| "BigNumber_isNegative NaN = False"

definition signedInfinity :: "bool \<Rightarrow> BigNumber" where
  "signedInfinity negative = (if negative then NegInfinity else PosInfinity)"

fun BigNumber_times :: "BigNumber \<Rightarrow> BigNumber \<Rightarrow> BigNumber" where
  "BigNumber_times NaN y = NaN"
| "BigNumber_times x NaN = NaN"
| "BigNumber_times (Finite a) (Finite b) = Finite (a * b)"
| "BigNumber_times (Finite a) y =
     (if a = 0 then NaN else signedInfinity ((a < 0) \<noteq> BigNumber_isNegative y))"
| "BigNumber_times x (Finite b) =
     (if b = 0 then NaN else signedInfinity (BigNumber_isNegative x \<noteq> (b < 0)))"
| "BigNumber_times x y = signedInfinity (BigNumber_isNegative x \<noteq> BigNumber_isNegative y)"

text \<open>
  A quotient is rounded to \<open>DECIMAL_PLACES\<close> decimals, half away from zero
  (the package's \<open>ROUND_HALF_UP\<close>, its rounding mode unless configured
  otherwise). The number of decimals is a setting of the package that is global to the
  program and is made outside the source file (the package's own value is 20), so the
  model takes it as the parameter \<open>dp\<close>.
\<close>

definition roundHalfUp :: "rat \<Rightarrow> int" where
  "roundHalfUp q = (if 0 \<le> q then \<lfloor>q + 1 / 2\<rfloor> else - \<lfloor>- q + 1 / 2\<rfloor>)"

definition roundToPlaces :: "nat \<Rightarrow> rat \<Rightarrow> rat" where
  "roundToPlaces dp q = of_int (roundHalfUp (q * 10 ^ dp)) / 10 ^ dp"

fun BigNumber_dividedBy :: "nat \<Rightarrow> BigNumber \<Rightarrow> BigNumber \<Rightarrow> BigNumber" where
  "BigNumber_dividedBy dp NaN y = NaN"
| "BigNumber_dividedBy dp x NaN = NaN"
| "BigNumber_dividedBy dp (Finite a) (Finite b) =
     (if b = 0 then (if a = 0 then NaN else signedInfinity (a < 0))
      else Finite (roundToPlaces dp (a / b)))"
| "BigNumber_dividedBy dp (Finite a) y = Finite 0"
| "BigNumber_dividedBy dp x (Finite b) = signedInfinity (BigNumber_isNegative x \<noteq> (b < 0))"
| "BigNumber_dividedBy dp x y = NaN"

text \<open>\<open>ceil()\<close>: rounding to an integer towards positive infinity.\<close>

fun BigNumber_ceil :: "BigNumber \<Rightarrow> BigNumber" where
  "BigNumber_ceil (Finite a) = Finite (of_int \<lceil>a\<rceil>)"
| "BigNumber_ceil x = x"

text \<open>A number with a fractional part: what rounding up has to remove.\<close>

fun isFractional :: "BigNumber \<Rightarrow> bool" where
  "isFractional (Finite a) = (of_int \<lfloor>a\<rfloor> \<noteq> a)"
| "isFractional x = False"


section \<open>Decimal strings and lower case\<close>

definition isDigit :: "char \<Rightarrow> bool" where
  "isDigit c = (48 \<le> (of_char c :: nat) \<and> (of_char c :: nat) \<le> 57)"

definition digitValue :: "char \<Rightarrow> nat" where
  "digitValue c = of_char c - 48"

definition digitChar :: "nat \<Rightarrow> char" where
  "digitChar d = char_of (48 + d)"

definition decimalValue :: "string \<Rightarrow> nat" where
  "decimalValue ds = foldl (\<lambda>a c. 10 * a + digitValue c) 0 ds"

text \<open>
  Modelled from the spec: \<open>new BigNumber(text)\<close> on a numeric wire field, which is
  the decimal string of a non-negative integer (section 3). The package reads further
  notations (a sign, a fraction, an exponent); they are outside the wire format the
  spec describes and every other text is given the package's not-a-number value here.
\<close>

definition BigNumber_new :: "string \<Rightarrow> BigNumber" where
  "BigNumber_new ds =
     (if ds \<noteq> [] \<and> list_all isDigit ds then Finite (of_nat (decimalValue ds)) else NaN)"

function natToString :: "nat \<Rightarrow> string" where
  "natToString n =
     (if n < 10 then [digitChar n] else natToString (n div 10) @ [digitChar (n mod 10)])"
  by pat_completeness auto
termination
  by (relation "measure (\<lambda>n. n)") auto

declare natToString.simps [simp del]

text \<open>The digits after the decimal point of \<open>r / d\<close> for \<open>r < d\<close>, by long division.\<close>

fun fractionDigits :: "nat \<Rightarrow> nat \<Rightarrow> nat \<Rightarrow> string" where
  "fractionDigits 0 r d = []"
| "fractionDigits (Suc k) r d =
     (if r = 0 then [] else digitChar (10 * r div d) # fractionDigits k (10 * r mod d) d)"

text \<open>
  Modelled from the spec: \<open>toString()\<close> of a number, in plain decimal notation
  (numeric fields are "decimal strings on the wire", section 3, and are "stringified",
  section 6). The package changes to exponent notation beyond a threshold that is part
  of its global configuration (\<open>EXPONENTIAL_AT\<close>), which is made outside the
  source file; the model is the notation without exponent. A finite value of the package
  is a decimal with finitely many digits, so the long division of the fraction ends; its
  fuel is the denominator, which bounds the number of digits.
\<close>

definition BigNumber_toString :: "BigNumber \<Rightarrow> string" where
  "BigNumber_toString x =
     (case x of
        NaN \<Rightarrow> ''NaN''
      | PosInfinity \<Rightarrow> ''Infinity''
      | NegInfinity \<Rightarrow> ''-Infinity''
      | Finite q \<Rightarrow>
          (let (n, d) = quotient_of q;
               m = nat \<bar>n\<bar>;
               k = nat d;
               whole = natToString (m div k);
               digits = fractionDigits k (m mod k) k
           in (if n < 0 then ''-'' else []) @ whole @ (if digits = [] then [] else ''.'' @ digits)))"

text \<open>\<open>toString()\<close> of a JavaScript number that holds a small non-negative integer
  (the code of an enumeration member).\<close>

definition Number_toString :: "nat \<Rightarrow> string" where
  "Number_toString n = natToString n"

text \<open>\<open>toLowerCase()\<close> on the characters of an address (ASCII letters).\<close>

definition toLowerChar :: "char \<Rightarrow> char" where
  "toLowerChar c =
     (if 65 \<le> (of_char c :: nat) \<and> (of_char c :: nat) \<le> 90 then char_of (of_char c + (32 :: nat)) else c)"

definition toLowerCase :: "string \<Rightarrow> string" where
  "toLowerCase str = map toLowerChar str"

text \<open>\<open>a || b\<close> on two optional strings: the first unless it is undefined or empty.\<close>

definition orElse :: "string option \<Rightarrow> string option \<Rightarrow> string option" where
  "orElse a b = (case a of None \<Rightarrow> b | Some x \<Rightarrow> (if x = [] then b else a))"

text \<open>
  \<open>parseInt\<close> on the recovery id of the wire order, a JSON integer or null: the
  integer itself, and NaN (\<open>None\<close>) for null.
\<close>

definition parseInt :: "int option \<Rightarrow> int option" where
  "parseInt x = x"


section \<open>The data model\<close>

text \<open>
  Modelled from the spec: \<open>side\<close> is Buy or Sell and \<open>saleKind\<close> is
  FixedPrice or DutchAuction (section 3). The file types.ts that declares the two
  enumerations is not among the sources; a TypeScript enumeration is a number at run
  time, numbered from 0 in the order of its members, and the wire order carries these
  numbers.
\<close>

definition OrderSide_Buy :: nat where "OrderSide_Buy = 0"
definition OrderSide_Sell :: nat where "OrderSide_Sell = 1"
definition SaleKind_FixedPrice :: nat where "SaleKind_FixedPrice = 0"
definition SaleKind_DutchAuction :: nat where "SaleKind_DutchAuction = 1"

text \<open>JSON that the module passes on without looking inside.\<close>

type_synonym JSON = string

text \<open>An embedded account object; the module reads its address only.\<close>

record OpenSeaAccount =
  address :: string

text \<open>The order as it arrives in the current (nested, snake case) wire schema.\<close>

record WireOrder =
  order_hash :: "string option"
  hash :: "string option"
  cancelled :: bool
  finalized :: bool
  marked_invalid :: bool
  metadata :: "JSON option"
  exchange :: string
  maker :: OpenSeaAccount
  taker :: OpenSeaAccount
  maker_relayer_fee :: string
  taker_relayer_fee :: string
  maker_protocol_fee :: string
  taker_protocol_fee :: string
  fee_method :: nat
  fee_recipient :: OpenSeaAccount
  side :: nat
  sale_kind :: nat
  target :: string
  how_to_call :: nat
  calldata :: string
  replacement_pattern :: string
  static_target :: string
  static_extradata :: string
  payment_token :: string
  base_price :: string
  extra :: string
  listing_time :: string
  expiration_time :: string
  salt :: string
  v :: "int option"
  r :: string
  s :: string
  asset :: "JSON option"

text \<open>The order of the module. \<open>currentPrice\<close> is derived and set after construction.\<close>

record Order =
  hash :: "string option"
  cancelledOrFinalized :: bool
  markedInvalid :: bool
  metadata :: "JSON option"
  exchange :: string
  makerAccount :: "OpenSeaAccount option"
  takerAccount :: "OpenSeaAccount option"
  maker :: string
  taker :: string
  makerRelayerFee :: BigNumber
  takerRelayerFee :: BigNumber
  makerProtocolFee :: BigNumber
  takerProtocolFee :: BigNumber
  feeMethod :: nat
  feeRecipientAccount :: "OpenSeaAccount option"
  feeRecipient :: string
  side :: nat
  saleKind :: nat
  target :: string
  howToCall :: nat
  calldata :: string
  replacementPattern :: string
  staticTarget :: string
  staticExtradata :: string
  paymentToken :: string
  basePrice :: BigNumber
  extra :: BigNumber
  listingTime :: BigNumber
  expirationTime :: BigNumber
  salt :: BigNumber
  v :: "int option"
  r :: string
  s :: string
  asset :: "JSON option"
  currentPrice :: "BigNumber option"

text \<open>What \<open>orderToJSON\<close> hands to the protocol's hashing function.\<close>

record UnhashedOrderJSON =
  exchange :: string
  maker :: string
  taker :: string
  makerRelayerFee :: string
  takerRelayerFee :: string
  makerProtocolFee :: string
  takerProtocolFee :: string
  feeMethod :: string
  feeRecipient :: string
  side :: string
  saleKind :: string
  target :: string
  howToCall :: string
  calldata :: string
  replacementPattern :: string
  staticTarget :: string
  staticExtradata :: string
  paymentToken :: string
  basePrice :: string
  extra :: string
  listingTime :: string
  expirationTime :: string
  salt :: string

record OrderJSON = UnhashedOrderJSON +
  hash :: string
  metadata :: "JSON option"

text \<open>
  What the function reads from outside the program: the wall clock
  (\<open>Date.now()\<close>, in milliseconds) and the number of decimals the number package
  keeps in a quotient.
\<close>

record Environment =
  DECIMAL_PLACES :: nat
  Date_now :: int

section \<open>The current price\<close>

text \<open>
  \<open>Date.now() / 1000\<close> is a floating-point number with at most three decimals;
  the package reads a number through its shortest decimal notation, so \<open>now\<close> is
  the exact decimal. \<open>secondsToBacktrack\<close> is a finite JavaScript number.
  The order's fields are numbers of the package already, and \<open>new BigNumber\<close> of such
  a number is a copy.
\<close>

definition estimateCurrentPrice :: "Environment \<Rightarrow> Order \<Rightarrow> rat \<Rightarrow> bool \<Rightarrow> BigNumber" where
  "estimateCurrentPrice env order secondsToBacktrack shouldRoundUp =
     (let now = BigNumber_minus (Finite (of_int (Date_now env) / 1000)) (Finite secondsToBacktrack);
          basePrice = Order.basePrice order;
          listingTime = Order.listingTime order;
          expirationTime = Order.expirationTime order;
          extra = Order.extra order;
          exactPrice =
            (if Order.saleKind order = SaleKind_FixedPrice then basePrice
             else if Order.saleKind order = SaleKind_DutchAuction then
               (let diff = BigNumber_dividedBy (DECIMAL_PLACES env)
                             (BigNumber_times extra (BigNumber_minus now listingTime))
                             (BigNumber_minus expirationTime listingTime)
                in if Order.side order = OrderSide_Sell
                   then BigNumber_minus basePrice diff
                   else BigNumber_plus basePrice diff)
             else basePrice)
      in if shouldRoundUp then BigNumber_ceil exactPrice else exactPrice)"

section \<open>Order JSON adapters\<close>

definition orderFromJSON :: "Environment \<Rightarrow> WireOrder \<Rightarrow> Order" where
  "orderFromJSON env order =
     (let fromJSON = \<lparr>
            Order.hash = orElse (WireOrder.order_hash order) (WireOrder.hash order),
            Order.cancelledOrFinalized = (WireOrder.cancelled order \<or> WireOrder.finalized order),
            Order.markedInvalid = WireOrder.marked_invalid order,
            Order.metadata = WireOrder.metadata order,
            Order.exchange = WireOrder.exchange order,
            Order.makerAccount = Some (WireOrder.maker order),
            Order.takerAccount = Some (WireOrder.maker order),
            Order.maker = address (WireOrder.maker order),
            Order.taker = address (WireOrder.taker order),
            Order.makerRelayerFee = BigNumber_new (WireOrder.maker_relayer_fee order),
            Order.takerRelayerFee = BigNumber_new (WireOrder.taker_relayer_fee order),
            Order.makerProtocolFee = BigNumber_new (WireOrder.maker_protocol_fee order),
            Order.takerProtocolFee = BigNumber_new (WireOrder.taker_protocol_fee order),
            Order.feeMethod = WireOrder.fee_method order,
            Order.feeRecipientAccount = Some (WireOrder.fee_recipient order),
            Order.feeRecipient = address (WireOrder.fee_recipient order),
            Order.side = WireOrder.side order,
            Order.saleKind = WireOrder.sale_kind order,
            Order.target = WireOrder.target order,
            Order.howToCall = WireOrder.how_to_call order,
            Order.calldata = WireOrder.calldata order,
            Order.replacementPattern = WireOrder.replacement_pattern order,
            Order.staticTarget = WireOrder.static_target order,
            Order.staticExtradata = WireOrder.static_extradata order,
            Order.paymentToken = WireOrder.payment_token order,
            Order.basePrice = BigNumber_new (WireOrder.base_price order),
            Order.extra = BigNumber_new (WireOrder.extra order),
            Order.listingTime = BigNumber_new (WireOrder.listing_time order),
            Order.expirationTime = BigNumber_new (WireOrder.expiration_time order),
            Order.salt = BigNumber_new (WireOrder.salt order),
            Order.v = parseInt (WireOrder.v order),
            Order.r = WireOrder.r order,
            Order.s = WireOrder.s order,
            Order.asset = WireOrder.asset order,
            Order.currentPrice = None \<rparr>
      in fromJSON \<lparr> Order.currentPrice := Some (estimateCurrentPrice env fromJSON 30 True) \<rparr>)"

text \<open>
  The hash is computed by the protocol package (\<open>WyvernProtocol.getOrderHashHex\<close>)
  from the fields written so far; the function is a parameter.
\<close>

definition orderToJSON :: "(UnhashedOrderJSON \<Rightarrow> string) \<Rightarrow> Order \<Rightarrow> OrderJSON" where
  "orderToJSON getOrderHashHex order =
     (let asJSON = \<lparr>
            UnhashedOrderJSON.exchange = toLowerCase (Order.exchange order),
            UnhashedOrderJSON.maker = toLowerCase (Order.maker order),
            UnhashedOrderJSON.taker = toLowerCase (Order.taker order),
            UnhashedOrderJSON.makerRelayerFee = BigNumber_toString (Order.makerRelayerFee order),
            UnhashedOrderJSON.takerRelayerFee = BigNumber_toString (Order.takerRelayerFee order),
            UnhashedOrderJSON.makerProtocolFee = BigNumber_toString (Order.makerProtocolFee order),
            UnhashedOrderJSON.takerProtocolFee = BigNumber_toString (Order.takerProtocolFee order),
            UnhashedOrderJSON.feeMethod = Number_toString (Order.feeMethod order),
            UnhashedOrderJSON.feeRecipient = toLowerCase (Order.feeRecipient order),
            UnhashedOrderJSON.side = Number_toString (Order.side order),
            UnhashedOrderJSON.saleKind = Number_toString (Order.saleKind order),
            UnhashedOrderJSON.target = toLowerCase (Order.target order),
            UnhashedOrderJSON.howToCall = Number_toString (Order.howToCall order),
            UnhashedOrderJSON.calldata = Order.calldata order,
            UnhashedOrderJSON.replacementPattern = Order.replacementPattern order,
            UnhashedOrderJSON.staticTarget = toLowerCase (Order.staticTarget order),
            UnhashedOrderJSON.staticExtradata = Order.staticExtradata order,
            UnhashedOrderJSON.paymentToken = toLowerCase (Order.paymentToken order),
            UnhashedOrderJSON.basePrice = BigNumber_toString (Order.basePrice order),
            UnhashedOrderJSON.extra = BigNumber_toString (Order.extra order),
            UnhashedOrderJSON.listingTime = BigNumber_toString (Order.listingTime order),
            UnhashedOrderJSON.expirationTime = BigNumber_toString (Order.expirationTime order),
            UnhashedOrderJSON.salt = BigNumber_toString (Order.salt order) \<rparr>
      in UnhashedOrderJSON.extend asJSON
           (OrderJSON.fields (getOrderHashHex asJSON) (Order.metadata order)))"


section \<open>Asset ownership\<close>

text \<open>
  The schema maps an asset to the description of a contract call; \<open>inputs\<close> holds
  the value of each input, \<open>None\<close> for an input without a value. The chain's
  answers come from the RPC client: the owner as a string, a balance as the number that
  \<open>toNumber()\<close> gives. A missing proxy address (null) is \<open>None\<close>.
\<close>

type_synonym WyvernAsset = JSON

record FunctionAbi =
  target :: string
  name :: string
  inputs :: "string option list"

record SchemaFunctions =
  ownerOf :: "(WyvernAsset \<Rightarrow> FunctionAbi) option"
  countOf :: "(WyvernAsset \<Rightarrow> FunctionAbi) option"

record Web3Calls =
  callOwner :: "FunctionAbi \<Rightarrow> string list \<Rightarrow> string"
  callCount :: "FunctionAbi \<Rightarrow> string option \<Rightarrow> rat"

definition truthy :: "string option \<Rightarrow> bool" where
  "truthy x = (case x of None \<Rightarrow> False | Some str \<Rightarrow> str \<noteq> [])"

definition findAsset ::
  "Web3Calls \<Rightarrow> string \<Rightarrow> string option \<Rightarrow> WyvernAsset \<Rightarrow> SchemaFunctions \<Rightarrow> string" where
  "findAsset web3 account proxy wyAsset functions =
     (let owner =
            (case ownerOf functions of
               None \<Rightarrow> None
             | Some f \<Rightarrow>
                 (let abi = f wyAsset
                  in if length (filter (\<lambda>x. x = None) (inputs abi)) = 0
                     then Some (toLowerCase (callOwner web3 abi (map the (inputs abi))))
                     else None));
          counts =
            (case countOf functions of
               None \<Rightarrow> None
             | Some g \<Rightarrow>
                 (let abi = g wyAsset;
                      proxyCount = (if truthy proxy then callCount web3 abi proxy else 0);
                      myCount = callCount web3 abi (Some account)
                  in Some (proxyCount, myCount)))
      in case owner of
           Some ownerAddress \<Rightarrow>
             (if truthy proxy \<and> toLowerCase ownerAddress = toLowerCase (the proxy) then ''proxy''
              else if toLowerCase ownerAddress = toLowerCase account then ''account''
              else if ownerAddress = ''0x'' then ''unknown''
              else ''other'')
         | None \<Rightarrow>
             (case counts of
                Some (proxyCount, myCount) \<Rightarrow>
                  (if proxyCount \<ge> 1000000000000000000 then ''proxy''
                   else if myCount \<ge> 1000000000000000000 then ''account''
                   else ''other'')
              | None \<Rightarrow> ''unknown''))"

text \<open>The address of twenty zero bytes, as the chain prints it.\<close>

definition zeroAddress :: string where
  "zeroAddress = ''0x'' @ replicate 40 (CHR ''0'')"

section \<open>The signature codec\<close>

text \<open>
  The signature is taken as the bytes that \<open>ethUtil.toBuffer\<close> decodes from the hex
  string. \<open>fromRpcSig\<close> and \<open>bufferToHex\<close> are functions of the
  ethereumjs-util package, a dependency: \<open>fromRpcSig\<close> refuses a buffer that is
  not 65 bytes long, reads \<open>r\<close>, \<open>s\<close> and the last byte \<open>v\<close>, and
  adds 27 to a \<open>v\<close> below 27. A \<open>v\<close> of \<open>None\<close> is JavaScript's
  undefined (the first byte of an empty buffer).
\<close>

type_synonym byte = "8 word"

datatype SignatureError = InvalidSignatureLength | InvalidSignature

record ECSignature =
  v :: "nat option"
  r :: string
  s :: string

definition hexDigit :: "nat \<Rightarrow> char" where
  "hexDigit d = (if d < 10 then char_of (48 + d) else char_of (87 + d))"

definition bufferToHex :: "byte list \<Rightarrow> string" where
  "bufferToHex buf =
     ''0x'' @ concat (map (\<lambda>b. [hexDigit (unat b div 16), hexDigit (unat b mod 16)]) buf)"

text \<open>\<open>buf.slice(from, to)\<close> for indices that are not negative.\<close>

definition slice :: "byte list \<Rightarrow> nat \<Rightarrow> nat \<Rightarrow> byte list" where
  "slice buf start stop = take (stop - start) (drop start buf)"

definition byteAt :: "byte list \<Rightarrow> nat \<Rightarrow> nat option" where
  "byteAt buf i = (if i < length buf then Some (unat (buf ! i)) else None)"

definition normalizeV :: "nat option \<Rightarrow> nat option" where
  "normalizeV x = (case x of None \<Rightarrow> None | Some n \<Rightarrow> (if n < 27 then Some (n + 27) else Some n))"

definition fromRpcSig :: "byte list \<Rightarrow> SignatureError + (nat option \<times> byte list \<times> byte list)" where
  "fromRpcSig sig =
     (if length sig \<noteq> 65 then Inl InvalidSignatureLength
      else Inr (normalizeV (byteAt sig 64), slice sig 0 32, slice sig 32 64))"

definition parseSignatureHexAsVRS :: "byte list \<Rightarrow> ECSignature" where
  "parseSignatureHexAsVRS signatureBuffer =
     \<lparr> ECSignature.v = normalizeV (byteAt signatureBuffer 0),
       ECSignature.r = bufferToHex (slice signatureBuffer 1 33),
       ECSignature.s = bufferToHex (slice signatureBuffer 33 65) \<rparr>"

definition parseSignatureHexAsRSV :: "byte list \<Rightarrow> SignatureError + ECSignature" where
  "parseSignatureHexAsRSV signatureBuffer =
     (case fromRpcSig signatureBuffer of
        Inl e \<Rightarrow> Inl e
      | Inr (v0, r0, s0) \<Rightarrow>
          Inr \<lparr> ECSignature.v = v0, ECSignature.r = bufferToHex r0, ECSignature.s = bufferToHex s0 \<rparr>)"

definition validVParamValues :: "nat option list" where
  "validVParamValues = [Some 27, Some 28]"

definition parseSignatureHex :: "byte list \<Rightarrow> SignatureError + ECSignature" where
  "parseSignatureHex signature =
     (case parseSignatureHexAsRSV signature of
        Inl e \<Rightarrow> Inl e
      | Inr ecSignatureRSV \<Rightarrow>
          (if ECSignature.v ecSignatureRSV \<in> set validVParamValues then Inr ecSignatureRSV
           else (let ecSignatureVRS = parseSignatureHexAsVRS signature
                 in if ECSignature.v ecSignatureVRS \<in> set validVParamValues then Inr ecSignatureVRS
                    else Inl InvalidSignature)))"


section \<open>The transaction confirmation tracker\<close>

text \<open>
  The tracker is event driven: \<open>track\<close> runs when a caller registers, and each turn of
  a poll loop runs when the RPC client answers. The state is the module's map
  \<open>txCallbacks\<close>, the poll loops that are alive (per transaction hash, the number of
  loops that wait for the transaction and the number that wait for its receipt), and a
  trace of the callback invocations made so far (oldest first, with the hash they were
  made for). A callback is named by a number; \<open>confirmTransaction\<close> registers the
  callback that settles its promise.
\<close>

type_synonym TxHash = string
type_synonym TxnCallback = nat

definition NULL_BLOCK_HASH :: string where
  "NULL_BLOCK_HASH = ''0x'' @ replicate 64 (CHR ''0'')"

record Transaction =
  blockHash :: "string option"

text \<open>The receipt's status as the number \<open>parseInt\<close> reads from it (the client hands
  it over as a number or as a hex quantity); \<open>None\<close> when the receipt has none.\<close>

record TransactionReceipt =
  status :: "int option"

text \<open>An answer of the RPC client through \<open>promisify\<close>: an error rejects the promise.\<close>

datatype 'a Web3Reply = Failed | Reply 'a

record Tracker =
  txCallbacks :: "TxHash \<Rightarrow> TxnCallback list option"
  awaitingTransaction :: "TxHash \<Rightarrow> nat"
  awaitingReceipt :: "TxHash \<Rightarrow> nat"
  calls :: "(TxHash \<times> TxnCallback \<times> bool) list"

definition emptyTracker :: Tracker where
  "emptyTracker =
     \<lparr> txCallbacks = (\<lambda>h. None), awaitingTransaction = (\<lambda>h. 0),
       awaitingReceipt = (\<lambda>h. 0), calls = [] \<rparr>"

definition track :: "Tracker \<Rightarrow> TxHash \<Rightarrow> TxnCallback \<Rightarrow> Tracker" where
  "track t txHash onFinalized =
     (case txCallbacks t txHash of
        Some fs \<Rightarrow> t \<lparr> txCallbacks := (txCallbacks t)(txHash := Some (fs @ [onFinalized])) \<rparr>
      | None \<Rightarrow>
          t \<lparr> txCallbacks := (txCallbacks t)(txHash := Some [onFinalized]),
              awaitingTransaction :=
                (awaitingTransaction t)(txHash := awaitingTransaction t txHash + 1) \<rparr>)"

text \<open>\<open>tx && tx.blockHash && tx.blockHash !== NULL_BLOCK_HASH\<close>\<close>

definition included :: "Transaction option \<Rightarrow> bool" where
  "included tx =
     (case tx of
        None \<Rightarrow> False
      | Some x \<Rightarrow> truthy (blockHash x) \<and> blockHash x \<noteq> Some NULL_BLOCK_HASH)"

text \<open>\<open>receipt ? parseInt((receipt.status || "0").toString()) == 1 : true\<close>\<close>

definition receiptStatus :: "TransactionReceipt option \<Rightarrow> bool" where
  "receiptStatus receipt =
     (case receipt of
        Some x \<Rightarrow> (case status x of None \<Rightarrow> (0 :: int) | Some n \<Rightarrow> n) = 1
      | None \<Rightarrow> True)"

text \<open>
  A turn of a poll loop for \<open>txHash\<close> that gets the answer to
  \<open>getTransaction\<close>. An error ends the loop (its promise is rejected and nothing
  asks again); a transaction that is not in a block leaves the loop waiting, to ask again
  after a second; otherwise the loop goes on to ask for the receipt.
\<close>

definition pollTransaction :: "Tracker \<Rightarrow> TxHash \<Rightarrow> Transaction option Web3Reply \<Rightarrow> Tracker" where
  "pollTransaction t txHash answer =
     (if awaitingTransaction t txHash = 0 then t
      else case answer of
        Failed \<Rightarrow>
          t \<lparr> awaitingTransaction :=
                (awaitingTransaction t)(txHash := awaitingTransaction t txHash - 1) \<rparr>
      | Reply tx \<Rightarrow>
          (if included tx
           then t \<lparr> awaitingTransaction :=
                       (awaitingTransaction t)(txHash := awaitingTransaction t txHash - 1),
                     awaitingReceipt :=
                       (awaitingReceipt t)(txHash := awaitingReceipt t txHash + 1) \<rparr>
           else t))"

text \<open>
  The rest of the turn, when the answer to \<open>getTransactionReceipt\<close> arrives: every
  callback in the list is called with the status, the entry is deleted, the loop ends.
  (Without an entry the source would fail on \<open>undefined.map\<close>, which ends the loop
  as well.)
\<close>

definition pollReceipt :: "Tracker \<Rightarrow> TxHash \<Rightarrow> TransactionReceipt option Web3Reply \<Rightarrow> Tracker" where
  "pollReceipt t txHash answer =
     (if awaitingReceipt t txHash = 0 then t
      else case answer of
        Failed \<Rightarrow>
          t \<lparr> awaitingReceipt := (awaitingReceipt t)(txHash := awaitingReceipt t txHash - 1) \<rparr>
      | Reply receipt \<Rightarrow>
          (case txCallbacks t txHash of
             None \<Rightarrow>
               t \<lparr> awaitingReceipt := (awaitingReceipt t)(txHash := awaitingReceipt t txHash - 1) \<rparr>
           | Some fs \<Rightarrow>
               t \<lparr> txCallbacks := (txCallbacks t)(txHash := None),
                   awaitingReceipt := (awaitingReceipt t)(txHash := awaitingReceipt t txHash - 1),
                   calls := calls t @ map (\<lambda>f. (txHash, f, receiptStatus receipt)) fs \<rparr>))"

text \<open>
  \<open>confirmTransaction\<close>: a promise that the registered callback resolves when it
  is called with true and rejects when it is called with false. The promise of callback
  \<open>f\<close> registered for \<open>txHash\<close> is settled by the first such call.
\<close>

definition confirmTransaction :: "Tracker \<Rightarrow> TxHash \<Rightarrow> TxnCallback \<Rightarrow> Tracker" where
  "confirmTransaction t txHash f = track t txHash f"

datatype PromiseState = Pending | Resolved string | Rejected string

definition promiseState :: "Tracker \<Rightarrow> TxHash \<Rightarrow> TxnCallback \<Rightarrow> PromiseState" where
  "promiseState t txHash f =
     (case filter (\<lambda>c. fst c = txHash \<and> fst (snd c) = f) (calls t) of
        [] \<Rightarrow> Pending
      | c # cs \<Rightarrow>
          (if snd (snd c) then Resolved ''Transaction complete''
           else Rejected ''Transaction failed''))"

text \<open>What can happen to the tracker, and a run of such events.\<close>

datatype Event =
    Confirm TxHash TxnCallback
  | TransactionAnswer TxHash "Transaction option Web3Reply"
  | ReceiptAnswer TxHash "TransactionReceipt option Web3Reply"

fun step :: "Tracker \<Rightarrow> Event \<Rightarrow> Tracker" where
  "step t (Confirm h f) = confirmTransaction t h f"
| "step t (TransactionAnswer h a) = pollTransaction t h a"
| "step t (ReceiptAnswer h a) = pollReceipt t h a"

definition run :: "Tracker \<Rightarrow> Event list \<Rightarrow> Tracker" where
  "run t es = foldl step t es"

text \<open>The event's transaction hash, and the events that cannot end the wait for \<open>h\<close>
  while its loop waits for the transaction.\<close>

fun eventHash :: "Event \<Rightarrow> TxHash" where
  "eventHash (Confirm h f) = h"
| "eventHash (TransactionAnswer h a) = h"
| "eventHash (ReceiptAnswer h a) = h"

fun notYetIncluded :: "TxHash \<Rightarrow> Event \<Rightarrow> bool" where
  "notYetIncluded h (Confirm g f) = True"
| "notYetIncluded h (TransactionAnswer g a) =
     (g \<noteq> h \<or> (case a of Failed \<Rightarrow> False | Reply tx \<Rightarrow> \<not> included tx))"
| "notYetIncluded h (ReceiptAnswer g a) = True"

fun noReceiptYet :: "TxHash \<Rightarrow> Event \<Rightarrow> bool" where
  "noReceiptYet h (Confirm g f) = True"
| "noReceiptYet h (TransactionAnswer g a) = True"
| "noReceiptYet h (ReceiptAnswer g a) = (g \<noteq> h)"

text \<open>The callbacks that a run of events registers for \<open>h\<close>, in order.\<close>

fun registered :: "TxHash \<Rightarrow> Event list \<Rightarrow> TxnCallback list" where
  "registered h [] = []"
| "registered h (Confirm g f # es) = (if g = h then f # registered h es else registered h es)"
| "registered h (e # es) = registered h es"

definition callsFor :: "TxHash \<Rightarrow> Tracker \<Rightarrow> (TxnCallback \<times> bool) list" where
  "callsFor h t = map snd (filter (\<lambda>c. fst c = h) (calls t))"


section \<open>The price as the specification words it\<close>

text \<open>
  Section 4.1 of the specification: \<open>now\<close> is the current Unix time minus
  \<open>secondsToBacktrack\<close>; \<open>diff\<close> is
  \<open>extra \<times> (now - listingTime) / (expirationTime - listingTime)\<close> in the
  arithmetic of the number package; the exact price is \<open>basePrice\<close> for a fixed
  price, \<open>basePrice - diff\<close> for a Dutch auction that sells and
  \<open>basePrice + diff\<close> for one that buys. (For a sale kind that is neither, which
  the specification does not know, nothing is added to \<open>basePrice\<close>.)
\<close>

definition currentTime :: "Environment \<Rightarrow> rat \<Rightarrow> BigNumber" where
  "currentTime env secondsToBacktrack =
     BigNumber_minus (Finite (of_int (Date_now env) / 1000)) (Finite secondsToBacktrack)"

definition linearDiff :: "nat \<Rightarrow> BigNumber \<Rightarrow> BigNumber \<Rightarrow> BigNumber \<Rightarrow> BigNumber \<Rightarrow> BigNumber" where
  "linearDiff dp extraAmount now listing expiration =
     BigNumber_dividedBy dp (BigNumber_times extraAmount (BigNumber_minus now listing))
       (BigNumber_minus expiration listing)"

definition auctionPrice :: "Environment \<Rightarrow> Order \<Rightarrow> rat \<Rightarrow> BigNumber" where
  "auctionPrice env order secondsToBacktrack =
     (let diff = linearDiff (DECIMAL_PLACES env) (Order.extra order)
                   (currentTime env secondsToBacktrack)
                   (Order.listingTime order) (Order.expirationTime order)
      in if Order.side order = OrderSide_Sell
         then BigNumber_minus (Order.basePrice order) diff
         else BigNumber_plus (Order.basePrice order) diff)"

definition exactPrice :: "Environment \<Rightarrow> Order \<Rightarrow> rat \<Rightarrow> BigNumber" where
  "exactPrice env order secondsToBacktrack =
     (if Order.saleKind order = SaleKind_DutchAuction
      then auctionPrice env order secondsToBacktrack
      else Order.basePrice order)"

section \<open>Sample values\<close>

definition sampleOrder :: "nat \<Rightarrow> nat \<Rightarrow> BigNumber \<Rightarrow> Order" where
  "sampleOrder kind sd price =
     \<lparr> Order.hash = None, Order.cancelledOrFinalized = False, Order.markedInvalid = False,
       Order.metadata = None, Order.exchange = ''0xE'', Order.makerAccount = None,
       Order.takerAccount = None, Order.maker = ''0xA'', Order.taker = ''0xB'',
       Order.makerRelayerFee = Finite 0, Order.takerRelayerFee = Finite 0,
       Order.makerProtocolFee = Finite 0, Order.takerProtocolFee = Finite 0,
       Order.feeMethod = 1, Order.feeRecipientAccount = None, Order.feeRecipient = ''0xF'',
       Order.side = sd, Order.saleKind = kind, Order.target = ''0xT'', Order.howToCall = 0,
       Order.calldata = ''0x'', Order.replacementPattern = ''0x'', Order.staticTarget = ''0x0'',
       Order.staticExtradata = ''0x'', Order.paymentToken = ''0x0'',
       Order.basePrice = price, Order.extra = Finite 100, Order.listingTime = Finite 0,
       Order.expirationTime = Finite 3600, Order.salt = Finite 7, Order.v = None,
       Order.r = '''', Order.s = '''', Order.asset = None, Order.currentPrice = None \<rparr>"

definition sampleEnvironment :: "int \<Rightarrow> Environment" where
  "sampleEnvironment ms = \<lparr> DECIMAL_PLACES = 20, Date_now = ms \<rparr>"

text \<open>
  A well-formed wire order (section 3): each of the nine numeric fields is the decimal
  string of a non-negative integer, without leading zeros.
\<close>

definition canonicalDecimal :: "string \<Rightarrow> bool" where
  "canonicalDecimal ds =
     (ds \<noteq> [] \<and> list_all isDigit ds \<and> (hd ds \<noteq> CHR ''0'' \<or> length ds = 1))"

definition wellFormedWire :: "WireOrder \<Rightarrow> bool" where
  "wellFormedWire w =
     (canonicalDecimal (WireOrder.maker_relayer_fee w) \<and>
      canonicalDecimal (WireOrder.taker_relayer_fee w) \<and>
      canonicalDecimal (WireOrder.maker_protocol_fee w) \<and>
      canonicalDecimal (WireOrder.taker_protocol_fee w) \<and>
      canonicalDecimal (WireOrder.base_price w) \<and>
      canonicalDecimal (WireOrder.extra w) \<and>
      canonicalDecimal (WireOrder.listing_time w) \<and>
      canonicalDecimal (WireOrder.expiration_time w) \<and>
      canonicalDecimal (WireOrder.salt w))"

definition sampleWireOrder :: WireOrder where
  "sampleWireOrder =
     \<lparr> WireOrder.order_hash = Some ''0x1f'', WireOrder.hash = None,
       WireOrder.cancelled = False, WireOrder.finalized = False,
       WireOrder.marked_invalid = False, WireOrder.metadata = None,
       WireOrder.exchange = ''0x7Be8'',
       WireOrder.maker = \<lparr> address = ''0xAbC1'' \<rparr>,
       WireOrder.taker = \<lparr> address = ''0xdEf2'' \<rparr>,
       WireOrder.maker_relayer_fee = ''250'', WireOrder.taker_relayer_fee = ''0'',
       WireOrder.maker_protocol_fee = ''0'', WireOrder.taker_protocol_fee = ''0'',
       WireOrder.fee_method = 1,
       WireOrder.fee_recipient = \<lparr> address = ''0x5B32'' \<rparr>,
       WireOrder.side = 1, WireOrder.sale_kind = 0, WireOrder.target = ''0x06012C8'',
       WireOrder.how_to_call = 0, WireOrder.calldata = ''0x23b8'',
       WireOrder.replacement_pattern = ''0x00ff'', WireOrder.static_target = ''0x0000'',
       WireOrder.static_extradata = ''0x'', WireOrder.payment_token = ''0xC02A'',
       WireOrder.base_price = ''1500000000000000000000'', WireOrder.extra = ''0'',
       WireOrder.listing_time = ''1541000000'', WireOrder.expiration_time = ''0'',
       WireOrder.salt = ''98765432109876543210987654321098765432'',
       WireOrder.v = Some 27, WireOrder.r = ''0x0a'', WireOrder.s = ''0x0b'',
       WireOrder.asset = None \<rparr>"

section \<open>The two layouts as the specification words them\<close>

text \<open>
  Section 4.2 of the specification, on a signature of 65 bytes. In the layout
  \<open>r\<parallel>s\<parallel>v\<close> the bytes 0 to 31 are \<open>r\<close>, the bytes 32 to 63 are
  \<open>s\<close> and byte 64 is \<open>v\<close>; in the layout \<open>v\<parallel>r\<parallel>s\<close> byte 0 is
  \<open>v\<close>, the bytes 1 to 32 are \<open>r\<close> and the bytes 33 to 64 are \<open>s\<close>.
  A \<open>v\<close> below 27 has 27 added (in the first layout by the package's parser).
\<close>

definition bytesFrom :: "byte list \<Rightarrow> nat \<Rightarrow> nat \<Rightarrow> byte list" where
  "bytesFrom buf i j = map (\<lambda>k. buf ! k) [i..<j]"

definition recoveryId :: "byte \<Rightarrow> nat" where
  "recoveryId b = (if unat b < 27 then unat b + 27 else unat b)"

definition layoutRSV :: "byte list \<Rightarrow> ECSignature" where
  "layoutRSV buf =
     \<lparr> ECSignature.v = Some (recoveryId (buf ! 64)),
       ECSignature.r = bufferToHex (bytesFrom buf 0 32),
       ECSignature.s = bufferToHex (bytesFrom buf 32 64) \<rparr>"

definition layoutVRS :: "byte list \<Rightarrow> ECSignature" where
  "layoutVRS buf =
     \<lparr> ECSignature.v = Some (recoveryId (buf ! 0)),
       ECSignature.r = bufferToHex (bytesFrom buf 1 33),
       ECSignature.s = bufferToHex (bytesFrom buf 33 65) \<rparr>"

definition validV :: "ECSignature \<Rightarrow> bool" where
  "validV sg = (ECSignature.v sg = Some 27 \<or> ECSignature.v sg = Some 28)"

text \<open>A signature that starts with a recovery id of 0 and goes on with 64 bytes 0x11, and
  one of 65 bytes 0x40.\<close>

definition sampleSignatureVRS :: "byte list" where
  "sampleSignatureVRS = 0 # replicate 64 17"

definition sampleSignatureBad :: "byte list" where
  "sampleSignatureBad = replicate 65 64"

text \<open>A schema with an owner-of query of one input, and a chain that answers every such
  query with the given owner.\<close>

definition sampleFunctions :: SchemaFunctions where
  "sampleFunctions =
     \<lparr> ownerOf = Some (\<lambda>a. \<lparr> target = ''0x06012c8'', name = ''ownerOf'', inputs = [Some a] \<rparr>),
       countOf = None \<rparr>"

definition sampleWeb3 :: "string \<Rightarrow> Web3Calls" where
  "sampleWeb3 ownerAnswer =
     \<lparr> callOwner = (\<lambda>abi args. ownerAnswer), callCount = (\<lambda>abi who. 0) \<rparr>"

section \<open>States and runs of the tracker\<close>

text \<open>At most one poll loop is alive for a hash, and none for a hash that is not tracked.\<close>

definition onePoller :: "Tracker \<Rightarrow> bool" where
  "onePoller t =
     (\<forall>h. awaitingTransaction t h + awaitingReceipt t h \<le> 1 \<and>
          (txCallbacks t h = None \<longrightarrow> awaitingTransaction t h + awaitingReceipt t h = 0))"

text \<open>The tracker while one loop for \<open>h\<close> waits for the transaction, and while it
  waits for the receipt: the registered callbacks \<open>fs\<close> and the calls \<open>cs\<close>
  made for \<open>h\<close> so far.\<close>

definition waitingForTransaction :: "TxHash \<Rightarrow> TxnCallback list \<Rightarrow> (TxnCallback \<times> bool) list \<Rightarrow> Tracker \<Rightarrow> bool" where
  "waitingForTransaction h fs cs t =
     (txCallbacks t h = Some fs \<and> awaitingTransaction t h = 1 \<and> awaitingReceipt t h = 0 \<and>
      callsFor h t = cs)"

definition waitingForReceipt :: "TxHash \<Rightarrow> TxnCallback list \<Rightarrow> (TxnCallback \<times> bool) list \<Rightarrow> Tracker \<Rightarrow> bool" where
  "waitingForReceipt h fs cs t =
     (txCallbacks t h = Some fs \<and> awaitingTransaction t h = 0 \<and> awaitingReceipt t h = 1 \<and>
      callsFor h t = cs)"

text \<open>The tracker when the entry of \<open>h\<close> is left without a poll loop (the loop has
  ended on an error of the RPC client).\<close>

definition abandoned :: "TxHash \<Rightarrow> TxnCallback list \<Rightarrow> (TxnCallback \<times> bool) list \<Rightarrow> Tracker \<Rightarrow> bool" where
  "abandoned h fs cs t =
     (txCallbacks t h = Some fs \<and> awaitingTransaction t h = 0 \<and> awaitingReceipt t h = 0 \<and>
      callsFor h t = cs)"

text \<open>A whole wait for \<open>h\<close>: a first registration, events until the transaction is
  seen in a block, events until the receipt arrives.\<close>

definition wholeWait ::
  "Tracker \<Rightarrow> TxHash \<Rightarrow> TxnCallback \<Rightarrow> Event list \<Rightarrow> Transaction option \<Rightarrow> Event list \<Rightarrow>
     TransactionReceipt option \<Rightarrow> Tracker" where
  "wholeWait t h f es1 tx es2 receipt =
     run t (Confirm h f # es1 @ [TransactionAnswer h (Reply tx)] @ es2 @
              [ReceiptAnswer h (Reply receipt)])"

text \<open>A transaction in a block, and a wait of two answers without a block with a second
  registration in between.\<close>

definition sampleIncluded :: "Transaction option" where
  "sampleIncluded = Some \<lparr> blockHash = Some ''0xb10c'' \<rparr>"

definition sampleWaiting :: "Event list" where
  "sampleWaiting = [TransactionAnswer ''0xaa'' (Reply None), Confirm ''0xaa'' 2,
     TransactionAnswer ''0xaa'' (Reply (Some \<lparr> blockHash = None \<rparr>))]"

section \<open>Properties of the current price\<close>

lemma saleKinds_differ: "SaleKind_FixedPrice \<noteq> SaleKind_DutchAuction"
  by (simp add: SaleKind_FixedPrice_def SaleKind_DutchAuction_def)

lemma estimateCurrentPrice_exact:
  "estimateCurrentPrice env order stb up =
     (if up then BigNumber_ceil (exactPrice env order stb) else exactPrice env order stb)"
  using saleKinds_differ
  by (simp add: estimateCurrentPrice_def exactPrice_def auctionPrice_def linearDiff_def
      currentTime_def Let_def)

lemma ceil_not_fractional: "\<not> isFractional (BigNumber_ceil x)"
  by (cases x) simp_all


text \<open>
  C1. For an order whose sale kind is DutchAuction the function computes
  \<open>diff = extra \<times> (now - listingTime) / (expirationTime - listingTime)\<close> with
  \<open>now\<close> the clock minus \<open>secondsToBacktrack\<close>, and its price is
  \<open>basePrice - diff\<close> on the sell side and \<open>basePrice + diff\<close> on the buy side.
  The formula is the same wherever \<open>now\<close> lies: nothing clamps it to the auction
  window. (The price is returned as it is without rounding up, and under \<open>ceil\<close>
  with it.)
\<close>

theorem dutch_auction_linear_price:
  assumes "Order.saleKind order = SaleKind_DutchAuction"
  shows "estimateCurrentPrice env order stb up =
     (let now = currentTime env stb;
          diff = linearDiff (DECIMAL_PLACES env) (Order.extra order) now
                   (Order.listingTime order) (Order.expirationTime order);
          price = (if Order.side order = OrderSide_Sell
                   then BigNumber_minus (Order.basePrice order) diff
                   else BigNumber_plus (Order.basePrice order) diff)
      in if up then BigNumber_ceil price else price)"
  using assms saleKinds_differ
  by (simp add: estimateCurrentPrice_def linearDiff_def currentTime_def Let_def)

text \<open>
  The witness is a sell order over the window from 0 to 3600 with base price 1000 and
  extra 100, priced at \<open>now = 7200\<close>, an hour after its expiration: the price is
  800, below the end price 900.
\<close>

theorem dutch_auction_linear_price_witness:
  "Order.saleKind (sampleOrder SaleKind_DutchAuction OrderSide_Sell (Finite 1000)) = SaleKind_DutchAuction
   \<and> estimateCurrentPrice (sampleEnvironment 7230000)
       (sampleOrder SaleKind_DutchAuction OrderSide_Sell (Finite 1000)) 30 False = Finite 800"
proof -
  let ?o = "sampleOrder SaleKind_DutchAuction OrderSide_Sell (Finite 1000)"
  let ?e = "sampleEnvironment 7230000"
  have kind: "Order.saleKind ?o = SaleKind_DutchAuction"
    by (simp add: sampleOrder_def)
  have "estimateCurrentPrice ?e ?o 30 False =
     (let now = currentTime ?e 30;
          diff = linearDiff (DECIMAL_PLACES ?e) (Order.extra ?o) now
                   (Order.listingTime ?o) (Order.expirationTime ?o);
          price = (if Order.side ?o = OrderSide_Sell
                   then BigNumber_minus (Order.basePrice ?o) diff
                   else BigNumber_plus (Order.basePrice ?o) diff)
      in if False then BigNumber_ceil price else price)"
    by (rule dutch_auction_linear_price [OF kind])
  also have "\<dots> = Finite 800"
    by code_simp
  finally show ?thesis
    using kind by simp
qed

text \<open>The same price in rational arithmetic, when the four numbers are finite and the
  window is not empty.\<close>

lemma dutch_auction_price_arithmetic:
  assumes "Order.saleKind order = SaleKind_DutchAuction"
    and "Order.basePrice order = Finite b" and "Order.extra order = Finite x"
    and "Order.listingTime order = Finite l" and "Order.expirationTime order = Finite e"
    and "e \<noteq> l"
  shows "estimateCurrentPrice env order stb False =
     (let now = of_int (Date_now env) / 1000 - stb;
          diff = roundToPlaces (DECIMAL_PLACES env) (x * (now - l) / (e - l))
      in if Order.side order = OrderSide_Sell then Finite (b - diff) else Finite (b + diff))"
  using assms saleKinds_differ
  by (simp add: estimateCurrentPrice_def BigNumber_minus_def Let_def)




text \<open>
  C4. With \<open>shouldRoundUp\<close> the result is never fractional: it is the ceiling
  of the exact price, and when the exact price is a number \<open>q\<close> it is the least
  integer that is not below \<open>q\<close>. Without \<open>shouldRoundUp\<close> the result is the
  exact price itself. (An exact price that is no number, which only a division by an empty
  auction window produces, is its own ceiling.)
\<close>

theorem round_up_is_ceiling:
  "estimateCurrentPrice env order stb False = exactPrice env order stb
   \<and> estimateCurrentPrice env order stb True = BigNumber_ceil (exactPrice env order stb)
   \<and> \<not> isFractional (estimateCurrentPrice env order stb True)
   \<and> (\<forall>q. exactPrice env order stb = Finite q \<longrightarrow>
         (\<exists>k. estimateCurrentPrice env order stb True = Finite (of_int k)
              \<and> q \<le> of_int k \<and> (\<forall>j. q \<le> of_int j \<longrightarrow> k \<le> j)))"
proof -
  have rounded: "estimateCurrentPrice env order stb True = BigNumber_ceil (exactPrice env order stb)"
    by (simp add: estimateCurrentPrice_exact)
  have least: "\<exists>k. estimateCurrentPrice env order stb True = Finite (of_int k)
              \<and> q \<le> of_int k \<and> (\<forall>j. q \<le> of_int j \<longrightarrow> k \<le> j)"
    if "exactPrice env order stb = Finite q" for q
  proof (intro exI conjI allI impI)
    show "estimateCurrentPrice env order stb True = Finite (of_int \<lceil>q\<rceil>)"
      using that rounded by simp
    show "q \<le> of_int \<lceil>q\<rceil>"
      by (rule le_of_int_ceiling)
    show "\<lceil>q\<rceil> \<le> j" if "q \<le> of_int j" for j
      using that by (simp add: ceiling_le_iff)
  qed
  show ?thesis
    using least by (simp add: estimateCurrentPrice_exact ceil_not_fractional)
qed

text \<open>
  The witness is the sell auction of C1 one millisecond later: the exact price is a
  fraction just below 800, and 800 is returned.
\<close>

theorem round_up_is_ceiling_witness:
  "exactPrice (sampleEnvironment 7230001)
       (sampleOrder SaleKind_DutchAuction OrderSide_Sell (Finite 1000)) 30
     = Finite (39999998611111111111111 / 50000000000000000000)
   \<and> estimateCurrentPrice (sampleEnvironment 7230001)
       (sampleOrder SaleKind_DutchAuction OrderSide_Sell (Finite 1000)) 30 True = Finite 800
   \<and> (39999998611111111111111 / 50000000000000000000 :: rat) \<le> 800"
proof -
  let ?e = "sampleEnvironment 7230001"
  let ?o = "sampleOrder SaleKind_DutchAuction OrderSide_Sell (Finite 1000)"
  let ?q = "39999998611111111111111 / 50000000000000000000 :: rat"
  have exact: "exactPrice ?e ?o 30 = Finite ?q"
    by code_simp
  from round_up_is_ceiling [of ?e ?o 30] exact
  obtain k where k: "estimateCurrentPrice ?e ?o 30 True = Finite (of_int k)"
      "?q \<le> of_int k" "\<forall>j. ?q \<le> of_int j \<longrightarrow> k \<le> j"
    by blast
  have "?q \<le> of_int (800 :: int)"
    by simp
  with k(3) have "k \<le> 800"
    by blast
  moreover have "799 < k"
  proof -
    have "(799 :: rat) < ?q" by simp
    with k(2) have "(of_int 799 :: rat) < of_int k" by simp
    then show ?thesis by (simp only: of_int_less_iff)
  qed
  ultimately have "k = 800"
    by simp
  with k(1) exact show ?thesis
    by simp
qed

section \<open>Properties of the order adapters\<close>

lemma char_of_48: "char_of (48 :: nat) = CHR ''0''"
  by code_simp

lemma digit_roundtrip: "isDigit c \<Longrightarrow> digitChar (digitValue c) = c"
  by (simp add: isDigit_def digitChar_def digitValue_def)

lemma digitValue_less: "isDigit c \<Longrightarrow> digitValue c < 10"
  by (auto simp add: isDigit_def digitValue_def)

lemma digitValue_zero: "isDigit c \<Longrightarrow> digitValue c = 0 \<Longrightarrow> c = CHR ''0''"
  using digit_roundtrip [of c] by (simp add: digitChar_def char_of_48)

lemma decimalValue_snoc: "decimalValue (ds @ [c]) = 10 * decimalValue ds + digitValue c"
  by (simp add: decimalValue_def)

lemma natToString_digit: "d < 10 \<Longrightarrow> natToString d = [digitChar d]"
  by (simp add: natToString.simps)

lemma natToString_step:
  "d < 10 \<Longrightarrow> 0 < a \<Longrightarrow> natToString (10 * a + d) = natToString a @ [digitChar d]"
  by (subst natToString.simps) simp

text \<open>Printing undoes reading on a digit string that does not start with a zero.\<close>

lemma natToString_decimalValue:
  "ds \<noteq> [] \<Longrightarrow> list_all isDigit ds \<Longrightarrow> hd ds \<noteq> CHR ''0'' \<Longrightarrow>
     natToString (decimalValue ds) = ds \<and> 0 < decimalValue ds"
proof (induction ds rule: rev_induct)
  case Nil
  then show ?case by simp
next
  case (snoc c ds)
  have c: "isDigit c" using snoc.prems(2) by simp
  show ?case
  proof (cases "ds = []")
    case True
    with snoc.prems have "c \<noteq> CHR ''0''" by simp
    with c have pos: "0 < digitValue c" using digitValue_zero [of c] by auto
    show ?thesis
      using True c pos digitValue_less [of c] digit_roundtrip [of c]
      by (simp add: decimalValue_snoc decimalValue_def natToString_digit)
  next
    case False
    with snoc.prems have "list_all isDigit ds" "hd ds \<noteq> CHR ''0''" by simp_all
    with False snoc.IH have ih: "natToString (decimalValue ds) = ds" "0 < decimalValue ds"
      by simp_all
    show ?thesis
      using ih c digitValue_less [of c] digit_roundtrip [of c]
      by (simp add: decimalValue_snoc natToString_step)
  qed
qed

lemma canonical_roundtrip:
  assumes "canonicalDecimal ds"
  shows "natToString (decimalValue ds) = ds"
proof (cases "hd ds = CHR ''0''")
  case True
  with assms obtain c where "ds = [c]" "c = CHR ''0''"
    by (cases ds) (auto simp add: canonicalDecimal_def)
  then show ?thesis
    by (simp add: decimalValue_def digitValue_def natToString_digit digitChar_def char_of_48)
next
  case False
  with assms show ?thesis
    using natToString_decimalValue [of ds] by (simp add: canonicalDecimal_def)
qed

lemma toString_of_nat: "BigNumber_toString (Finite (of_nat n)) = natToString n"
  by (simp add: BigNumber_toString_def)

lemma BigNumber_roundtrip:
  "canonicalDecimal ds \<Longrightarrow> BigNumber_toString (BigNumber_new ds) = ds"
  using canonical_roundtrip [of ds]
  by (simp add: BigNumber_new_def toString_of_nat canonicalDecimal_def)

lemma toLowerChar_idem: "toLowerChar (toLowerChar c) = toLowerChar c"
  by (simp add: toLowerChar_def)

lemma toLowerCase_idem: "toLowerCase (toLowerCase str) = toLowerCase str"
  by (simp add: toLowerCase_def toLowerChar_idem)

text \<open>
  C8. For a well-formed wire order of the current schema, \<open>orderFromJSON\<close>
  followed by \<open>orderToJSON\<close> gives back every numeric field as the decimal string
  it was (the codes of the enumerations as the decimal strings of the numbers they were)
  and every address field in lower case; the call data fields and the metadata pass
  unchanged. The hash comes from the protocol's function and the current price is not
  written.
\<close>

theorem order_json_roundtrip:
  assumes "wellFormedWire w"
  shows "(let j = orderToJSON getOrderHashHex (orderFromJSON env w) in
       UnhashedOrderJSON.exchange j = toLowerCase (WireOrder.exchange w)
     \<and> UnhashedOrderJSON.maker j = toLowerCase (address (WireOrder.maker w))
     \<and> UnhashedOrderJSON.taker j = toLowerCase (address (WireOrder.taker w))
     \<and> UnhashedOrderJSON.feeRecipient j = toLowerCase (address (WireOrder.fee_recipient w))
     \<and> UnhashedOrderJSON.target j = toLowerCase (WireOrder.target w)
     \<and> UnhashedOrderJSON.staticTarget j = toLowerCase (WireOrder.static_target w)
     \<and> UnhashedOrderJSON.paymentToken j = toLowerCase (WireOrder.payment_token w)
     \<and> UnhashedOrderJSON.makerRelayerFee j = WireOrder.maker_relayer_fee w
     \<and> UnhashedOrderJSON.takerRelayerFee j = WireOrder.taker_relayer_fee w
     \<and> UnhashedOrderJSON.makerProtocolFee j = WireOrder.maker_protocol_fee w
     \<and> UnhashedOrderJSON.takerProtocolFee j = WireOrder.taker_protocol_fee w
     \<and> UnhashedOrderJSON.basePrice j = WireOrder.base_price w
     \<and> UnhashedOrderJSON.extra j = WireOrder.extra w
     \<and> UnhashedOrderJSON.listingTime j = WireOrder.listing_time w
     \<and> UnhashedOrderJSON.expirationTime j = WireOrder.expiration_time w
     \<and> UnhashedOrderJSON.salt j = WireOrder.salt w
     \<and> UnhashedOrderJSON.feeMethod j = natToString (WireOrder.fee_method w)
     \<and> UnhashedOrderJSON.side j = natToString (WireOrder.side w)
     \<and> UnhashedOrderJSON.saleKind j = natToString (WireOrder.sale_kind w)
     \<and> UnhashedOrderJSON.howToCall j = natToString (WireOrder.how_to_call w)
     \<and> UnhashedOrderJSON.calldata j = WireOrder.calldata w
     \<and> UnhashedOrderJSON.replacementPattern j = WireOrder.replacement_pattern w
     \<and> UnhashedOrderJSON.staticExtradata j = WireOrder.static_extradata w
     \<and> OrderJSON.metadata j = WireOrder.metadata w)"
  using assms
  by (simp add: wellFormedWire_def orderToJSON_def orderFromJSON_def Let_def
      UnhashedOrderJSON.defs OrderJSON.defs BigNumber_roundtrip Number_toString_def)

theorem order_json_roundtrip_witness:
  "wellFormedWire sampleWireOrder
   \<and> UnhashedOrderJSON.maker
       (orderToJSON (\<lambda>j. ''0x99'') (orderFromJSON (sampleEnvironment 7230000) sampleWireOrder))
     = ''0xabc1''
   \<and> UnhashedOrderJSON.salt
       (orderToJSON (\<lambda>j. ''0x99'') (orderFromJSON (sampleEnvironment 7230000) sampleWireOrder))
     = ''98765432109876543210987654321098765432''"
proof -
  let ?j = "orderToJSON (\<lambda>j. ''0x99'') (orderFromJSON (sampleEnvironment 7230000) sampleWireOrder)"
  have wf: "wellFormedWire sampleWireOrder"
    by code_simp
  from order_json_roundtrip [OF wf, of "\<lambda>j. ''0x99''" "sampleEnvironment 7230000"]
  have "UnhashedOrderJSON.maker ?j = toLowerCase (address (WireOrder.maker sampleWireOrder))"
    and "UnhashedOrderJSON.salt ?j = WireOrder.salt sampleWireOrder"
    by (simp_all only: Let_def)
  moreover have "toLowerCase (address (WireOrder.maker sampleWireOrder)) = ''0xabc1''"
    by code_simp
  moreover have "WireOrder.salt sampleWireOrder = ''98765432109876543210987654321098765432''"
    by (simp add: sampleWireOrder_def)
  ultimately show ?thesis
    using wf by simp
qed

text \<open>
  C10. \<open>orderFromJSON\<close> fills both \<open>makerAccount\<close> and \<open>takerAccount\<close>
  from the maker object of the wire order; the taker object is read for its address only.
  The flat \<open>maker\<close> and \<open>taker\<close> are the addresses of the maker and of the taker
  object.
\<close>

theorem accounts_from_maker_object:
  "Order.makerAccount (orderFromJSON env w) = Some (WireOrder.maker w)
   \<and> Order.takerAccount (orderFromJSON env w) = Some (WireOrder.maker w)
   \<and> Order.maker (orderFromJSON env w) = address (WireOrder.maker w)
   \<and> Order.taker (orderFromJSON env w) = address (WireOrder.taker w)"
  by (simp add: orderFromJSON_def Let_def)

text \<open>On the sample order, whose taker is not its maker, \<open>takerAccount\<close> is not the
  taker object.\<close>

lemma takerAccount_is_not_taker_object:
  "Order.takerAccount (orderFromJSON env sampleWireOrder) \<noteq> Some (WireOrder.taker sampleWireOrder)"
  by (simp add: orderFromJSON_def Let_def sampleWireOrder_def)

section \<open>Properties of the signature codec\<close>

lemma slice_bytesFrom: "j \<le> length buf \<Longrightarrow> slice buf i j = bytesFrom buf i j"
  by (auto simp add: slice_def bytesFrom_def list_eq_iff_nth_eq)

lemma normalizeV_byteAt:
  "i < length buf \<Longrightarrow> normalizeV (byteAt buf i) = Some (recoveryId (buf ! i))"
  by (simp add: normalizeV_def byteAt_def recoveryId_def)

lemma parseSignatureHexAsRSV_layout:
  "length buf = 65 \<Longrightarrow> parseSignatureHexAsRSV buf = Inr (layoutRSV buf)"
  by (simp add: parseSignatureHexAsRSV_def fromRpcSig_def layoutRSV_def slice_bytesFrom
      normalizeV_byteAt)

lemma parseSignatureHexAsVRS_layout:
  "length buf = 65 \<Longrightarrow> parseSignatureHexAsVRS buf = layoutVRS buf"
  by (simp add: parseSignatureHexAsVRS_def layoutVRS_def slice_bytesFrom normalizeV_byteAt)

lemma parseSignatureHex_layouts:
  "length buf = 65 \<Longrightarrow>
     parseSignatureHex buf =
       (if validV (layoutRSV buf) then Inr (layoutRSV buf)
        else if validV (layoutVRS buf) then Inr (layoutVRS buf)
        else Inl InvalidSignature)"
  by (auto simp add: parseSignatureHex_def parseSignatureHexAsRSV_layout
      parseSignatureHexAsVRS_layout validVParamValues_def validV_def Let_def)

text \<open>A buffer of another length is refused by the package's parser before anything else.\<close>

lemma parseSignatureHex_other_length:
  "length buf \<noteq> 65 \<Longrightarrow> parseSignatureHex buf = Inl InvalidSignatureLength"
  by (simp add: parseSignatureHex_def parseSignatureHexAsRSV_def fromRpcSig_def)

text \<open>
  C2. On a signature of 65 bytes \<open>parseSignatureHex\<close> first reads the layout
  \<open>r\<parallel>s\<parallel>v\<close> and returns that reading if its \<open>v\<close> is 27 or 28; otherwise
  it reads the layout \<open>v\<parallel>r\<parallel>s\<close>, with 27 added to a first byte below 27, and
  returns that reading if its \<open>v\<close> is 27 or 28.
\<close>

theorem parse_signature_two_layouts:
  assumes "length buf = 65"
  shows "parseSignatureHex buf =
       (if ECSignature.v (layoutRSV buf) = Some 27 \<or> ECSignature.v (layoutRSV buf) = Some 28
        then Inr (layoutRSV buf)
        else if ECSignature.v (layoutVRS buf) = Some 27 \<or> ECSignature.v (layoutVRS buf) = Some 28
        then Inr (layoutVRS buf)
        else Inl InvalidSignature)
     \<and> ECSignature.v (layoutVRS buf) =
         Some (if unat (buf ! 0) < 27 then unat (buf ! 0) + 27 else unat (buf ! 0))"
  using parseSignatureHex_layouts [OF assms]
  by (simp add: validV_def layoutVRS_def recoveryId_def)

theorem parse_signature_two_layouts_witness:
  "length sampleSignatureVRS = 65
   \<and> parseSignatureHex sampleSignatureVRS =
       Inr \<lparr> ECSignature.v = Some 27,
             ECSignature.r = ''0x1111111111111111111111111111111111111111111111111111111111111111'',
             ECSignature.s = ''0x1111111111111111111111111111111111111111111111111111111111111111'' \<rparr>"
proof -
  have len: "length sampleSignatureVRS = 65"
    by (simp add: sampleSignatureVRS_def)
  have rsv: "\<not> (ECSignature.v (layoutRSV sampleSignatureVRS) = Some 27
              \<or> ECSignature.v (layoutRSV sampleSignatureVRS) = Some 28)"
    by code_simp
  have vrs: "ECSignature.v (layoutVRS sampleSignatureVRS) = Some 27"
    by code_simp
  have "parseSignatureHex sampleSignatureVRS = Inr (layoutVRS sampleSignatureVRS)"
    using parse_signature_two_layouts [OF len] rsv vrs by simp
  moreover have "layoutVRS sampleSignatureVRS =
       \<lparr> ECSignature.v = Some 27,
         ECSignature.r = ''0x1111111111111111111111111111111111111111111111111111111111111111'',
         ECSignature.s = ''0x1111111111111111111111111111111111111111111111111111111111111111'' \<rparr>"
    by code_simp
  ultimately show ?thesis
    using len by simp
qed

text \<open>
  C5. On a signature of 65 bytes the error "Invalid signature" is the result exactly when
  neither reading has a \<open>v\<close> of 27 or 28, and a signature is the result exactly when
  one of them has. The error is the function's own result: nothing is deferred.
\<close>

theorem invalid_signature_iff:
  assumes "length buf = 65"
  shows "(parseSignatureHex buf = Inl InvalidSignature
            \<longleftrightarrow> \<not> validV (layoutRSV buf) \<and> \<not> validV (layoutVRS buf))
       \<and> ((\<exists>sg. parseSignatureHex buf = Inr sg)
            \<longleftrightarrow> validV (layoutRSV buf) \<or> validV (layoutVRS buf))
       \<and> (\<forall>sg. parseSignatureHex buf = Inr sg \<longrightarrow> validV sg)"
  using parseSignatureHex_layouts [OF assms] by auto

theorem invalid_signature_iff_witness:
  "length sampleSignatureBad = 65
   \<and> \<not> validV (layoutRSV sampleSignatureBad) \<and> \<not> validV (layoutVRS sampleSignatureBad)
   \<and> parseSignatureHex sampleSignatureBad = Inl InvalidSignature"
proof -
  have len: "length sampleSignatureBad = 65"
    by (simp add: sampleSignatureBad_def)
  have neither: "\<not> validV (layoutRSV sampleSignatureBad)" "\<not> validV (layoutVRS sampleSignatureBad)"
    by code_simp+
  with invalid_signature_iff [OF len] have "parseSignatureHex sampleSignatureBad = Inl InvalidSignature"
    by blast
  with len neither show ?thesis
    by simp
qed

section \<open>Properties of the ownership query\<close>

lemma toLowerCase_0x: "toLowerCase ''0x'' = ''0x''"
  by code_simp

text \<open>
  C9, as stated: an owner that is the zero address is classified as unknown. The
  function compares the owner with the literal \<open>0x\<close> instead, so the zero address of
  forty zeros is classified as other.
\<close>

theorem zero_address_owner_counterexample:
  "findAsset (sampleWeb3 zeroAddress) ''0xacc1'' (Some ''0xbcc2'') ''7'' sampleFunctions = ''other''
   \<and> ''other'' \<noteq> ''unknown''"
  by code_simp

text \<open>
  C9, amended: when the schema has an owner-of query and every input of the call has a
  value, the answer is put in lower case and is classified as proxy when a proxy address
  is given and the owner is that address in lower case, else as account when it is the
  account address in lower case, else as unknown when it is the literal \<open>0x\<close>, and
  as other otherwise.
\<close>

theorem owner_classification:
  assumes "ownerOf functions = Some f"
    and "list_all (\<lambda>x. x \<noteq> None) (inputs (f wyAsset))"
  shows "findAsset web3 account proxy wyAsset functions =
     (let ownerAddress = toLowerCase (callOwner web3 (f wyAsset) (map the (inputs (f wyAsset))))
      in if truthy proxy \<and> ownerAddress = toLowerCase (the proxy) then ''proxy''
         else if ownerAddress = toLowerCase account then ''account''
         else if ownerAddress = ''0x'' then ''unknown''
         else ''other'')"
proof -
  have "filter (\<lambda>x. x = None) (inputs (f wyAsset)) = []"
    using assms(2) by (simp add: filter_empty_conv list_all_iff)
  then show ?thesis
    using assms(1) by (simp add: findAsset_def Let_def toLowerCase_idem toLowerCase_0x)
qed

theorem owner_classification_witness:
  "ownerOf sampleFunctions = Some (\<lambda>a. \<lparr> target = ''0x06012c8'', name = ''ownerOf'', inputs = [Some a] \<rparr>)
   \<and> list_all (\<lambda>x. x \<noteq> None) (inputs \<lparr> target = ''0x06012c8'', name = ''ownerOf'', inputs = [Some ''7''] \<rparr>)
   \<and> findAsset (sampleWeb3 ''0x'') ''0xacc1'' (Some ''0xbcc2'') ''7'' sampleFunctions = ''unknown''"
proof -
  let ?f = "\<lambda>a. \<lparr> target = ''0x06012c8'', name = ''ownerOf'', inputs = [Some a] \<rparr>"
  have own: "ownerOf sampleFunctions = Some ?f"
    by (simp add: sampleFunctions_def)
  have vals: "list_all (\<lambda>x. x \<noteq> None) (inputs (?f ''7''))"
    by simp
  have "findAsset (sampleWeb3 ''0x'') ''0xacc1'' (Some ''0xbcc2'') ''7'' sampleFunctions =
     (let ownerAddress = toLowerCase (callOwner (sampleWeb3 ''0x'') (?f ''7'') (map the (inputs (?f ''7''))))
      in if truthy (Some ''0xbcc2'') \<and> ownerAddress = toLowerCase (the (Some ''0xbcc2'')) then ''proxy''
         else if ownerAddress = toLowerCase ''0xacc1'' then ''account''
         else if ownerAddress = ''0x'' then ''unknown''
         else ''other'')"
    by (rule owner_classification [OF own vals])
  also have "\<dots> = ''unknown''"
    by code_simp
  finally show ?thesis
    using own vals by simp
qed

section \<open>Properties of the tracker\<close>

lemmas tracker_defs = confirmTransaction_def track_def pollTransaction_def pollReceipt_def callsFor_def

lemma step_other:
  "eventHash e \<noteq> h \<Longrightarrow>
     txCallbacks (step t e) h = txCallbacks t h \<and>
     awaitingTransaction (step t e) h = awaitingTransaction t h \<and>
     awaitingReceipt (step t e) h = awaitingReceipt t h \<and>
     callsFor h (step t e) = callsFor h t"
  by (cases e) (auto simp add: tracker_defs split: option.splits Web3Reply.splits)

lemma onePoller_empty: "onePoller emptyTracker"
  by (simp add: onePoller_def emptyTracker_def)

lemma onePoller_step: "onePoller t \<Longrightarrow> onePoller (step t e)"
proof (cases e)
  case (Confirm g f)
  assume "onePoller t"
  then show ?thesis
    unfolding onePoller_def using Confirm
    by (auto simp add: tracker_defs split: option.splits)
next
  case (TransactionAnswer g a)
  assume inv: "onePoller t"
  show ?thesis
    unfolding onePoller_def
  proof (intro allI)
    fix h
    from inv have "awaitingTransaction t h + awaitingReceipt t h \<le> 1"
      "txCallbacks t h = None \<longrightarrow> awaitingTransaction t h + awaitingReceipt t h = 0"
      by (simp_all add: onePoller_def)
    then show "awaitingTransaction (step t e) h + awaitingReceipt (step t e) h \<le> 1 \<and>
          (txCallbacks (step t e) h = None \<longrightarrow> awaitingTransaction (step t e) h + awaitingReceipt (step t e) h = 0)"
      using TransactionAnswer
      by (cases a) (auto simp add: tracker_defs)
  qed
next
  case (ReceiptAnswer g a)
  assume inv: "onePoller t"
  show ?thesis
    unfolding onePoller_def
  proof (intro allI)
    fix h
    from inv have "awaitingTransaction t h + awaitingReceipt t h \<le> 1"
      "txCallbacks t h = None \<longrightarrow> awaitingTransaction t h + awaitingReceipt t h = 0"
      by (simp_all add: onePoller_def)
    then show "awaitingTransaction (step t e) h + awaitingReceipt (step t e) h \<le> 1 \<and>
          (txCallbacks (step t e) h = None \<longrightarrow> awaitingTransaction (step t e) h + awaitingReceipt (step t e) h = 0)"
      using ReceiptAnswer
      by (cases a) (auto simp add: tracker_defs split: option.splits)
  qed
qed

lemma onePoller_run: "onePoller t \<Longrightarrow> onePoller (run t es)"
  unfolding run_def by (induction es arbitrary: t) (simp_all add: onePoller_step)

lemma run_append: "run t (es1 @ es2) = run (run t es1) es2"
  by (simp add: run_def)

lemma run_Cons: "run t (e # es) = run (step t e) es"
  by (simp add: run_def)

lemma waitingForTransaction_step:
  assumes "waitingForTransaction h fs cs t" and "notYetIncluded h e"
  shows "waitingForTransaction h (fs @ registered h [e]) cs (step t e)"
proof (cases "eventHash e = h")
  case False
  then have "registered h [e] = []" by (cases e) simp_all
  with assms(1) step_other [OF False, of t] show ?thesis
    by (simp add: waitingForTransaction_def)
next
  case True
  show ?thesis
  proof (cases e)
    case (Confirm g f)
    with True assms(1) show ?thesis
      by (simp add: waitingForTransaction_def tracker_defs)
  next
    case (TransactionAnswer g a)
    with True assms show ?thesis
      by (cases a) (simp_all add: waitingForTransaction_def tracker_defs)
  next
    case (ReceiptAnswer g a)
    with True assms show ?thesis
      by (simp add: waitingForTransaction_def tracker_defs)
  qed
qed

lemma registered_append: "registered h (es1 @ es2) = registered h es1 @ registered h es2"
  by (induction h es1 rule: registered.induct) simp_all

lemma registered_Cons: "registered h (e # es) = registered h [e] @ registered h es"
  using registered_append [of h "[e]" es] by simp

lemma waitingForTransaction_run:
  "waitingForTransaction h fs cs t \<Longrightarrow> \<forall>e \<in> set es. notYetIncluded h e \<Longrightarrow>
     waitingForTransaction h (fs @ registered h es) cs (run t es)"
proof (induction es arbitrary: t fs)
  case Nil
  then show ?case by (simp add: run_def)
next
  case (Cons e es)
  from Cons.prems have "waitingForTransaction h (fs @ registered h [e]) cs (step t e)"
    by (simp add: waitingForTransaction_step)
  from Cons.IH [OF this] Cons.prems(2) show ?case
    by (simp add: run_Cons registered_Cons [of h e es])
qed

lemma waitingForReceipt_step:
  assumes "waitingForReceipt h fs cs t" and "noReceiptYet h e"
  shows "waitingForReceipt h (fs @ registered h [e]) cs (step t e)"
proof (cases "eventHash e = h")
  case False
  then have "registered h [e] = []" by (cases e) simp_all
  with assms(1) step_other [OF False, of t] show ?thesis
    by (simp add: waitingForReceipt_def)
next
  case True
  show ?thesis
  proof (cases e)
    case (Confirm g f)
    with True assms(1) show ?thesis
      by (simp add: waitingForReceipt_def tracker_defs)
  next
    case (TransactionAnswer g a)
    with True assms show ?thesis
      by (simp add: waitingForReceipt_def tracker_defs)
  next
    case (ReceiptAnswer g a)
    with True assms show ?thesis
      by simp
  qed
qed

lemma waitingForReceipt_run:
  "waitingForReceipt h fs cs t \<Longrightarrow> \<forall>e \<in> set es. noReceiptYet h e \<Longrightarrow>
     waitingForReceipt h (fs @ registered h es) cs (run t es)"
proof (induction es arbitrary: t fs)
  case Nil
  then show ?case by (simp add: run_def)
next
  case (Cons e es)
  from Cons.prems have "waitingForReceipt h (fs @ registered h [e]) cs (step t e)"
    by (simp add: waitingForReceipt_step)
  from Cons.IH [OF this] Cons.prems(2) show ?case
    by (simp add: run_Cons registered_Cons [of h e es])
qed

lemma first_registration:
  assumes "txCallbacks t h = None" and "awaitingTransaction t h = 0" and "awaitingReceipt t h = 0"
  shows "waitingForTransaction h [f] (callsFor h t) (confirmTransaction t h f)"
  using assms by (simp add: waitingForTransaction_def tracker_defs)

lemma seen_included:
  assumes "waitingForTransaction h fs cs t" and "included tx"
  shows "waitingForReceipt h fs cs (pollTransaction t h (Reply tx))"
  using assms by (simp add: waitingForTransaction_def waitingForReceipt_def tracker_defs)

lemma finalized:
  assumes "waitingForReceipt h fs cs t"
  shows "txCallbacks (pollReceipt t h (Reply receipt)) h = None
       \<and> awaitingTransaction (pollReceipt t h (Reply receipt)) h = 0
       \<and> awaitingReceipt (pollReceipt t h (Reply receipt)) h = 0
       \<and> callsFor h (pollReceipt t h (Reply receipt)) = cs @ map (\<lambda>f. (f, receiptStatus receipt)) fs"
  using assms by (simp add: waitingForReceipt_def tracker_defs comp_def)

lemma whole_wait:
  assumes "txCallbacks t h = None" and "awaitingTransaction t h = 0" and "awaitingReceipt t h = 0"
    and "\<forall>e \<in> set es1. notYetIncluded h e" and "included tx"
    and "\<forall>e \<in> set es2. noReceiptYet h e"
  shows "txCallbacks (wholeWait t h f es1 tx es2 receipt) h = None
       \<and> awaitingTransaction (wholeWait t h f es1 tx es2 receipt) h = 0
       \<and> awaitingReceipt (wholeWait t h f es1 tx es2 receipt) h = 0
       \<and> callsFor h (wholeWait t h f es1 tx es2 receipt) =
           callsFor h t @ map (\<lambda>g. (g, receiptStatus receipt)) (f # registered h es1 @ registered h es2)"
proof -
  let ?t1 = "run (confirmTransaction t h f) es1"
  let ?t2 = "run (pollTransaction ?t1 h (Reply tx)) es2"
  have 1: "waitingForTransaction h ([f] @ registered h es1) (callsFor h t) ?t1"
    using first_registration [OF assms(1-3)] assms(4) by (rule waitingForTransaction_run)
  have 2: "waitingForReceipt h (([f] @ registered h es1) @ registered h es2) (callsFor h t) ?t2"
    using seen_included [OF 1 assms(5)] assms(6) by (rule waitingForReceipt_run)
  have "wholeWait t h f es1 tx es2 receipt = pollReceipt ?t2 h (Reply receipt)"
    by (simp add: wholeWait_def run_Cons run_append run_def)
  with finalized [OF 2, of receipt] show ?thesis
    by simp
qed

lemma promiseState_callsFor:
  "promiseState t h f =
     (case filter (\<lambda>c. fst c = f) (callsFor h t) of
        [] \<Rightarrow> Pending
      | c # cs \<Rightarrow> (if snd c then Resolved ''Transaction complete'' else Rejected ''Transaction failed''))"
proof -
  have "filter (\<lambda>c. fst c = f) (map snd (filter (\<lambda>c. fst c = h) cs))
      = map snd (filter (\<lambda>c. fst c = h \<and> fst (snd c) = f) cs)" for cs :: "(TxHash \<times> TxnCallback \<times> bool) list"
    by (induction cs) auto
  then show ?thesis
    by (simp add: promiseState_def callsFor_def split: list.splits)
qed

lemma promise_pending_iff: "promiseState t h f = Pending \<longleftrightarrow> filter (\<lambda>c. fst c = f) (callsFor h t) = []"
  by (simp add: promiseState_callsFor split: list.splits)

lemma receiptStatus_iff:
  "receiptStatus receipt \<longleftrightarrow> receipt = None \<or> (\<exists>x. receipt = Some x \<and> status x = Some 1)"
  by (auto simp add: receiptStatus_def split: option.splits)

text \<open>
  C7. The tracker keeps at most one poll loop per transaction hash: in every state that
  a run of events reaches from the empty tracker, and through a whole wait, however many
  callbacks are registered meanwhile. Registering for a hash that is tracked only appends
  the callback to the list of the hash. When the receipt arrives, the calls made for the
  hash are exactly one call for each registered callback, in the order of registration,
  all with the same status, and the entry of the hash is removed.
\<close>

theorem tracker_deduplicates:
  "(\<forall>g. awaitingTransaction (run emptyTracker es) g + awaitingReceipt (run emptyTracker es) g \<le> 1)
   \<and> (txCallbacks t h = Some fs \<longrightarrow>
        track t h f = t \<lparr> txCallbacks := (txCallbacks t)(h := Some (fs @ [f])) \<rparr>)
   \<and> (txCallbacks t h = None \<and> awaitingTransaction t h = 0 \<and> awaitingReceipt t h = 0
        \<and> (\<forall>e \<in> set es1. notYetIncluded h e) \<and> included tx \<and> (\<forall>e \<in> set es2. noReceiptYet h e) \<longrightarrow>
          txCallbacks (run (confirmTransaction t h f) es1) h = Some (f # registered h es1)
        \<and> awaitingTransaction (run (confirmTransaction t h f) es1) h
            + awaitingReceipt (run (confirmTransaction t h f) es1) h = 1
        \<and> callsFor h (wholeWait t h f es1 tx es2 receipt) =
            callsFor h t @ map (\<lambda>g. (g, receiptStatus receipt)) (f # registered h es1 @ registered h es2)
        \<and> txCallbacks (wholeWait t h f es1 tx es2 receipt) h = None
        \<and> awaitingTransaction (wholeWait t h f es1 tx es2 receipt) h
            + awaitingReceipt (wholeWait t h f es1 tx es2 receipt) h = 0)"
proof (intro conjI impI)
  show "\<forall>g. awaitingTransaction (run emptyTracker es) g + awaitingReceipt (run emptyTracker es) g \<le> 1"
    using onePoller_run [OF onePoller_empty, of es] by (simp add: onePoller_def)
next
  assume "txCallbacks t h = Some fs"
  then show "track t h f = t \<lparr> txCallbacks := (txCallbacks t)(h := Some (fs @ [f])) \<rparr>"
    by (simp add: track_def)
next
  assume a: "txCallbacks t h = None \<and> awaitingTransaction t h = 0 \<and> awaitingReceipt t h = 0
        \<and> (\<forall>e \<in> set es1. notYetIncluded h e) \<and> included tx \<and> (\<forall>e \<in> set es2. noReceiptYet h e)"
  then have "waitingForTransaction h ([f] @ registered h es1) (callsFor h t)
       (run (confirmTransaction t h f) es1)"
    using waitingForTransaction_run [OF first_registration, of t h es1 f] by blast
  then show "txCallbacks (run (confirmTransaction t h f) es1) h = Some (f # registered h es1)"
    and "awaitingTransaction (run (confirmTransaction t h f) es1) h
            + awaitingReceipt (run (confirmTransaction t h f) es1) h = 1"
    by (simp_all add: waitingForTransaction_def)
  from a whole_wait [of t h es1 tx es2 f receipt]
  show "callsFor h (wholeWait t h f es1 tx es2 receipt) =
            callsFor h t @ map (\<lambda>g. (g, receiptStatus receipt)) (f # registered h es1 @ registered h es2)"
    and "txCallbacks (wholeWait t h f es1 tx es2 receipt) h = None"
    and "awaitingTransaction (wholeWait t h f es1 tx es2 receipt) h
            + awaitingReceipt (wholeWait t h f es1 tx es2 receipt) h = 0"
    by simp_all
qed

theorem tracker_deduplicates_witness:
  "txCallbacks emptyTracker ''0xaa'' = None
   \<and> list_all (notYetIncluded ''0xaa'') sampleWaiting \<and> included sampleIncluded
   \<and> txCallbacks (run (confirmTransaction emptyTracker ''0xaa'' 1) sampleWaiting) ''0xaa'' = Some [1, 2]
   \<and> callsFor ''0xaa''
       (wholeWait emptyTracker ''0xaa'' 1 sampleWaiting sampleIncluded [Confirm ''0xaa'' 3]
          (Some \<lparr> status = Some 1 \<rparr>))
     = [(1, True), (2, True), (3, True)]"
proof -
  have pre: "txCallbacks emptyTracker ''0xaa'' = None" "awaitingTransaction emptyTracker ''0xaa'' = 0"
      "awaitingReceipt emptyTracker ''0xaa'' = 0"
    by (simp_all add: emptyTracker_def)
  have quiet: "list_all (notYetIncluded ''0xaa'') sampleWaiting"
    by (simp add: sampleWaiting_def included_def truthy_def)
  have inc: "included sampleIncluded"
    by code_simp
  have later: "\<forall>e \<in> set [Confirm ''0xaa'' 3]. noReceiptYet ''0xaa'' e"
    by simp
  from quiet have quiet': "\<forall>e \<in> set sampleWaiting. notYetIncluded ''0xaa'' e"
    by (simp add: list_all_iff)
  have reg: "registered ''0xaa'' sampleWaiting = [2]" "registered ''0xaa'' [Confirm ''0xaa'' 3] = [3]"
    by (simp_all add: sampleWaiting_def)
  have st: "receiptStatus (Some \<lparr> status = Some 1 \<rparr>)"
    by (simp add: receiptStatus_def)
  have c0: "callsFor ''0xaa'' emptyTracker = []"
    by (simp add: callsFor_def emptyTracker_def)
  from tracker_deduplicates [of "[]" emptyTracker "''0xaa''" "[]" 1 sampleWaiting sampleIncluded
      "[Confirm ''0xaa'' 3]" "Some \<lparr> status = Some 1 \<rparr>"] pre quiet' inc later
  have "txCallbacks (run (confirmTransaction emptyTracker ''0xaa'' 1) sampleWaiting) ''0xaa''
          = Some (1 # registered ''0xaa'' sampleWaiting)"
    and "callsFor ''0xaa'' (wholeWait emptyTracker ''0xaa'' 1 sampleWaiting sampleIncluded
            [Confirm ''0xaa'' 3] (Some \<lparr> status = Some 1 \<rparr>))
          = callsFor ''0xaa'' emptyTracker
            @ map (\<lambda>g. (g, receiptStatus (Some \<lparr> status = Some 1 \<rparr>)))
                (1 # registered ''0xaa'' sampleWaiting @ registered ''0xaa'' [Confirm ''0xaa'' 3])"
    by blast+
  with reg st c0 pre(1) quiet inc show ?thesis
    by simp
qed

text \<open>
  C6. The promise of \<open>confirmTransaction\<close> stays pending, with its poll loop
  alive, through any number of answers that show no block: nothing times out. Once the
  transaction is in a block and the receipt has arrived, the promise is resolved exactly
  when the receipt is absent or its status is 1, and rejected exactly when a receipt is
  present whose status is not 1.
\<close>

theorem confirmTransaction_settles:
  assumes "txCallbacks t h = None" and "awaitingTransaction t h = 0" and "awaitingReceipt t h = 0"
    and "promiseState t h f = Pending"
    and "\<forall>e \<in> set es1. notYetIncluded h e" and "included tx"
    and "\<forall>e \<in> set es2. noReceiptYet h e"
  shows "promiseState (run (confirmTransaction t h f) es1) h f = Pending
       \<and> awaitingTransaction (run (confirmTransaction t h f) es1) h = 1
       \<and> (promiseState (wholeWait t h f es1 tx es2 receipt) h f = Resolved ''Transaction complete''
            \<longleftrightarrow> receipt = None \<or> (\<exists>x. receipt = Some x \<and> status x = Some 1))
       \<and> (promiseState (wholeWait t h f es1 tx es2 receipt) h f = Rejected ''Transaction failed''
            \<longleftrightarrow> (\<exists>x. receipt = Some x \<and> status x \<noteq> Some 1))
       \<and> promiseState (wholeWait t h f es1 tx es2 receipt) h f \<noteq> Pending"
proof -
  have w: "waitingForTransaction h ([f] @ registered h es1) (callsFor h t)
       (run (confirmTransaction t h f) es1)"
    using first_registration [OF assms(1-3)] assms(5) by (rule waitingForTransaction_run)
  have none: "filter (\<lambda>c. fst c = f) (callsFor h t) = []"
    using assms(4) by (simp add: promise_pending_iff)
  have pending: "promiseState (run (confirmTransaction t h f) es1) h f = Pending"
    using w none by (simp add: promise_pending_iff waitingForTransaction_def)
  have polling: "awaitingTransaction (run (confirmTransaction t h f) es1) h = 1"
    using w by (simp add: waitingForTransaction_def)
  have "callsFor h (wholeWait t h f es1 tx es2 receipt) =
           callsFor h t @ map (\<lambda>g. (g, receiptStatus receipt)) (f # registered h es1 @ registered h es2)"
    using whole_wait [OF assms(1-3) assms(5-7)] by simp
  then have settled: "promiseState (wholeWait t h f es1 tx es2 receipt) h f =
      (if receiptStatus receipt then Resolved ''Transaction complete'' else Rejected ''Transaction failed'')"
    using none by (simp add: promiseState_callsFor)
  have "\<not> receiptStatus receipt \<longleftrightarrow> (\<exists>x. receipt = Some x \<and> status x \<noteq> Some 1)"
    by (auto simp add: receiptStatus_iff)
  with pending polling settled show ?thesis
    by (auto simp add: receiptStatus_iff)
qed

theorem confirmTransaction_settles_witness:
  "promiseState emptyTracker ''0xaa'' 1 = Pending
   \<and> list_all (notYetIncluded ''0xaa'') sampleWaiting \<and> included sampleIncluded
   \<and> promiseState (run (confirmTransaction emptyTracker ''0xaa'' 1) sampleWaiting) ''0xaa'' 1 = Pending
   \<and> promiseState (wholeWait emptyTracker ''0xaa'' 1 sampleWaiting sampleIncluded [] None) ''0xaa'' 1
       = Resolved ''Transaction complete''
   \<and> promiseState (wholeWait emptyTracker ''0xaa'' 1 sampleWaiting sampleIncluded []
        (Some \<lparr> status = Some 0 \<rparr>)) ''0xaa'' 1
       = Rejected ''Transaction failed''"
proof -
  have pre: "txCallbacks emptyTracker ''0xaa'' = None" "awaitingTransaction emptyTracker ''0xaa'' = 0"
      "awaitingReceipt emptyTracker ''0xaa'' = 0" "promiseState emptyTracker ''0xaa'' 1 = Pending"
    by (simp_all add: emptyTracker_def promiseState_def)
  have quiet: "list_all (notYetIncluded ''0xaa'') sampleWaiting"
    by (simp add: sampleWaiting_def included_def truthy_def)
  then have quiet': "\<forall>e \<in> set sampleWaiting. notYetIncluded ''0xaa'' e"
    by (simp add: list_all_iff)
  have inc: "included sampleIncluded"
    by code_simp
  have later: "\<forall>e \<in> set ([] :: Event list). noReceiptYet ''0xaa'' e"
    by simp
  note at_sample = confirmTransaction_settles [OF pre quiet' inc later]
  have "promiseState (run (confirmTransaction emptyTracker ''0xaa'' 1) sampleWaiting) ''0xaa'' 1 = Pending"
    using at_sample [of None] by blast
  moreover have "promiseState (wholeWait emptyTracker ''0xaa'' 1 sampleWaiting sampleIncluded [] None) ''0xaa'' 1
       = Resolved ''Transaction complete''"
    using at_sample [of None] by blast
  moreover have "promiseState (wholeWait emptyTracker ''0xaa'' 1 sampleWaiting sampleIncluded []
        (Some \<lparr> status = Some 0 \<rparr>)) ''0xaa'' 1 = Rejected ''Transaction failed''"
    using at_sample [of "Some \<lparr> status = Some 0 \<rparr>"] by simp
  ultimately show ?thesis
    using pre(4) quiet inc by simp
qed

text \<open>
  What the specification leaves open (sections 7 and 9): an error of the RPC client ends
  the poll loop and leaves the entry in the map. From then on registrations for the hash
  are appended to the entry, no loop is started, and no callback of the entry is ever
  called: the promises stay pending.
\<close>

lemma abandoned_step:
  assumes "abandoned h fs cs t"
  shows "abandoned h (fs @ registered h [e]) cs (step t e)"
proof (cases "eventHash e = h")
  case False
  then have "registered h [e] = []" by (cases e) simp_all
  with assms step_other [OF False, of t] show ?thesis
    by (simp add: abandoned_def)
next
  case True
  with assms show ?thesis
    by (cases e) (simp_all add: abandoned_def tracker_defs)
qed

lemma abandoned_run:
  "abandoned h fs cs t \<Longrightarrow> abandoned h (fs @ registered h es) cs (run t es)"
proof (induction es arbitrary: t fs)
  case Nil
  then show ?case by (simp add: run_def)
next
  case (Cons e es)
  from Cons.IH [OF abandoned_step [OF Cons.prems, of e]] show ?case
    by (simp add: run_Cons registered_Cons [of h e es])
qed

lemma rpc_error_abandons:
  "waitingForTransaction h fs cs t \<Longrightarrow> abandoned h fs cs (pollTransaction t h Failed)"
  "waitingForReceipt h fs cs t \<Longrightarrow> abandoned h fs cs (pollReceipt t h Failed)"
  by (simp_all add: waitingForTransaction_def waitingForReceipt_def abandoned_def tracker_defs)

lemma rpc_error_leaves_promise_pending:
  assumes "txCallbacks t h = None" and "awaitingTransaction t h = 0" and "awaitingReceipt t h = 0"
    and "promiseState t h f = Pending"
    and "\<forall>e \<in> set es1. notYetIncluded h e"
  shows "promiseState (run (confirmTransaction t h f) (es1 @ TransactionAnswer h Failed # es2)) h f
           = Pending"
proof -
  have "waitingForTransaction h ([f] @ registered h es1) (callsFor h t)
       (run (confirmTransaction t h f) es1)"
    using first_registration [OF assms(1-3)] assms(5) by (rule waitingForTransaction_run)
  then have "abandoned h ([f] @ registered h es1) (callsFor h t)
       (step (run (confirmTransaction t h f) es1) (TransactionAnswer h Failed))"
    by (simp add: rpc_error_abandons)
  then have "abandoned h (([f] @ registered h es1) @ registered h es2) (callsFor h t)
       (run (step (run (confirmTransaction t h f) es1) (TransactionAnswer h Failed)) es2)"
    by (rule abandoned_run)
  then have "callsFor h (run (confirmTransaction t h f) (es1 @ TransactionAnswer h Failed # es2))
       = callsFor h t"
    by (simp add: abandoned_def run_append run_Cons)
  with assms(4) show ?thesis
    by (simp add: promise_pending_iff)
qed

section \<open>The examples of the specification\<close>

text \<open>
  Section 8, the Dutch-auction boundary: a sell order over the window from 0 to 3600
  with base price 1000 and extra 100 is priced at 1000 when the window opens and at 900
  when it closes; the buy order at 1000 and at 1100.
\<close>

lemma dutch_auction_boundaries:
  "estimateCurrentPrice (sampleEnvironment 30000)
     (sampleOrder SaleKind_DutchAuction OrderSide_Sell (Finite 1000)) 30 True = Finite 1000"
  "estimateCurrentPrice (sampleEnvironment 3630000)
     (sampleOrder SaleKind_DutchAuction OrderSide_Sell (Finite 1000)) 30 True = Finite 900"
  "estimateCurrentPrice (sampleEnvironment 30000)
     (sampleOrder SaleKind_DutchAuction OrderSide_Buy (Finite 1000)) 30 True = Finite 1000"
  "estimateCurrentPrice (sampleEnvironment 3630000)
     (sampleOrder SaleKind_DutchAuction OrderSide_Buy (Finite 1000)) 30 True = Finite 1100"
  by code_simp+

text \<open>An auction whose window is empty divides by zero: the price is no number, with or
  without rounding up.\<close>

lemma empty_window_price:
  "estimateCurrentPrice (sampleEnvironment 3630000)
     ((sampleOrder SaleKind_DutchAuction OrderSide_Sell (Finite 1000))
        \<lparr> Order.expirationTime := Finite 0 \<rparr>) 30 True = NegInfinity"
  by code_simp

end
